theory Spec2Isabelle
  imports Complex_Main "HOL-Library.Monad_Syntax"
begin

section \<open>Data model of backend/app.py\<close>

text \<open>
  A Python \<open>str\<close> is a sequence of Unicode code points; token strings of the GPT-2
  vocabulary contain code points above 255 (the word-boundary marker is U+0120), so a
  Python string is a list of code points. Dictionary keys of the responses are ASCII and
  are written as HOL strings.
\<close>

type_synonym pystr = "nat list"

text \<open>
  A torch tensor (and the nested Python list that \<open>.tolist()\<close> makes of it) is a tree:
  a scalar, or a sequence of sub-tensors along dimension 0.
\<close>

datatype 'a tensor = Scalar 'a | Tensor "'a tensor list"

text \<open>The JSON values the handlers put into their response dictionaries.\<close>

datatype json =
    JInt int
  | JFloat real
  | JStr pystr
  | JList "json list"
  | JObj "(string \<times> json) list"

type_synonym response = "(string \<times> json) list"

text \<open>\<open>tensor.tolist()\<close>: the nested list of the tensor's elements.\<close>

fun tolist :: "('a \<Rightarrow> json) \<Rightarrow> 'a tensor \<Rightarrow> json" where
  "tolist f (Scalar x) = f x"
| "tolist f (Tensor ts) = JList (map (tolist f) ts)"

text \<open>
  \<open>t[i]\<close> on a tensor, with Python's negative indices; an index out of range or an index
  into a 0-dimensional tensor raises IndexError (\<open>None\<close>).
\<close>

fun getitem :: "'a tensor \<Rightarrow> int \<Rightarrow> 'a tensor option" where
  "getitem (Scalar x) i = None"
| "getitem (Tensor ts) i =
     (let n = int (length ts); j = (if i < 0 then n + i else i)
      in if 0 \<le> j \<and> j < n then Some (ts ! nat j) else None)"

text \<open>\<open>len(x)\<close> of a JSON list, as a client reading the response computes it.\<close>

fun json_len :: "json \<Rightarrow> nat option" where
  "json_len (JList xs) = Some (length xs)"
| "json_len (JObj kvs) = Some (length kvs)"
| "json_len (JStr s) = Some (length s)"
| "json_len _ = None"

text \<open>The value stored under a key of a JSON object; \<open>None\<close> for any other value.\<close>

fun obj_field :: "json \<Rightarrow> string \<Rightarrow> json option" where
  "obj_field (JObj kvs) k = map_of kvs k"
| "obj_field _ k = None"

text \<open>The keys of a response dictionary, and the value stored under a key.\<close>

definition keys :: "response \<Rightarrow> string set" where
  "keys r = fst ` set r"

definition field :: "response \<Rightarrow> string \<Rightarrow> json option" where
  "field r k = map_of r k"

subsection \<open>The external collaborators\<close>

text \<open>
  The tokenizer and the model are loaded from the transformers library; their code is
  not part of the repository. They are parameters of the handlers: every call the
  handlers make is a field of the records below, and a call that raises returns \<open>None\<close>
  (every handler catches \<open>Exception\<close>, so the kind of exception does not matter).
\<close>

record encoding =
  input_ids :: "int tensor"
  attention_mask :: "int tensor"

record gpt2_tokenizer =
  tok_call :: "pystr \<Rightarrow> encoding option"
  encode :: "pystr \<Rightarrow> int tensor option"
  convert_ids_to_tokens :: "int tensor \<Rightarrow> pystr list option"
  decode :: "int list \<Rightarrow> pystr option"

text \<open>
  \<open>tok_call\<close> is \<open>tokenizer(text, return_tensors="pt", add_special_tokens=True)\<close>,
  \<open>encode\<close> is \<open>tokenizer.encode(text, return_tensors="pt")\<close>.
  In the outputs of the model, \<open>hidden_states\<close> and \<open>attentions\<close> are \<open>None\<close> when the
  attribute is missing or holds Python's \<open>None\<close>.
\<close>

record model_outputs =
  logits :: "real tensor"
  hidden_states :: "real tensor list option"
  attentions :: "real tensor list option"

record gpt2_model =
  forward_ids :: "int tensor \<Rightarrow> model_outputs option"
  forward :: "encoding \<Rightarrow> bool \<Rightarrow> model_outputs option"

text \<open>
  \<open>forward_ids x\<close> is \<open>model(x)\<close>; \<open>forward inputs b\<close> is \<open>model(**inputs)\<close>, with
  \<open>output_hidden_states=True\<close> passed when \<open>b\<close> holds.
\<close>

section \<open>/tokenize\<close>

definition startswith :: "pystr \<Rightarrow> pystr \<Rightarrow> bool" where
  "startswith s p = (take (length p) s = p)"

text \<open>The loop of lines 75-85: \<open>cleaned_tokens\<close> and \<open>seen_tokens\<close> are the accumulators.\<close>

fun clean_loop :: "pystr list \<Rightarrow> pystr list \<Rightarrow> pystr set \<Rightarrow> pystr list" where
  "clean_loop [] cleaned_tokens seen_tokens = cleaned_tokens"
| "clean_loop (token # rest) cleaned_tokens seen_tokens =
     (let clean_token = (if startswith token [288] then [32] @ drop 1 token else token)
      in if clean_token \<notin> seen_tokens
         then clean_loop rest (cleaned_tokens @ [clean_token]) (insert clean_token seen_tokens)
         else clean_loop rest cleaned_tokens seen_tokens)"

definition tokenize_failure :: response where
  "tokenize_failure =
     [(''input_ids'', JList []), (''tokens'', JList []), (''attention_mask'', JList [])]"

text \<open>The body of the \<open>try\<close> block, lines 67-91.\<close>

definition tokenize_try :: "gpt2_tokenizer \<Rightarrow> pystr \<Rightarrow> response option" where
  "tokenize_try tk text = do {
     inputs \<leftarrow> tok_call tk text;
     row \<leftarrow> getitem (input_ids inputs) 0;
     raw_tokens \<leftarrow> convert_ids_to_tokens tk row;
     row' \<leftarrow> getitem (input_ids inputs) 0;
     Some [(''input_ids'', tolist JInt row'),
           (''tokens'', JList (map JStr (clean_loop raw_tokens [] {}))),
           (''attention_mask'', tolist JInt (attention_mask inputs))]
   }"

definition tokenize_text :: "gpt2_tokenizer option \<Rightarrow> pystr \<Rightarrow> response" where
  "tokenize_text tokenizer text =
     (case tokenizer of
        None \<Rightarrow> tokenize_failure
      | Some tk \<Rightarrow>
          (case tokenize_try tk text of
             Some r \<Rightarrow> r
           | None \<Rightarrow> tokenize_failure))"

text \<open>
  The display rule and the deduplication rule as the specification words them: a leading
  marker U+0120 becomes a leading space, and of equal strings only the first is kept.
\<close>

fun display_token :: "pystr \<Rightarrow> pystr" where
  "display_token [] = []"
| "display_token (c # cs) = (if c = 288 then 32 # cs else c # cs)"

fun dedup_first :: "'a list \<Rightarrow> 'a list" where
  "dedup_first [] = []"
| "dedup_first (x # xs) = x # dedup_first (filter (\<lambda>y. y \<noteq> x) xs)"

section \<open>Shared helpers of the model-backed handlers\<close>

text \<open>\<open>xs[i]\<close> on a Python list or tuple with a non-negative index.\<close>

definition nth_opt :: "'a list \<Rightarrow> nat \<Rightarrow> 'a option" where
  "nth_opt xs i = (if i < length xs then Some (xs ! i) else None)"

text \<open>\<open>len(t)\<close>; a 0-dimensional value has no length (TypeError).\<close>

fun len :: "'a tensor \<Rightarrow> nat option" where
  "len (Scalar x) = None"
| "len (Tensor ts) = Some (length ts)"

text \<open>
  \<open>t.shape[1]\<close>: the size of dimension 1. A tensor with fewer than two dimensions has
  no such entry (IndexError). Tensors are rectangular, so the first sub-tensor gives the
  size; an empty dimension 0 does not occur (the batch size is 1) and is an error here.
\<close>

fun shape1 :: "'a tensor \<Rightarrow> nat option" where
  "shape1 (Tensor (Tensor ys # rest)) = Some (length ys)"
| "shape1 t = None"

text \<open>\<open>t.squeeze(0)\<close>: dimension 0 is removed when its size is 1.\<close>

fun squeeze0 :: "'a tensor \<Rightarrow> 'a tensor" where
  "squeeze0 (Tensor [t]) = t"
| "squeeze0 t = t"

text \<open>The elements of a one-dimensional tensor; \<open>None\<close> for any other rank.\<close>

fun scalar_of :: "'a tensor \<Rightarrow> 'a option" where
  "scalar_of (Scalar x) = Some x"
| "scalar_of (Tensor ts) = None"

fun vector_of :: "'a tensor \<Rightarrow> 'a list option" where
  "vector_of (Scalar x) = None"
| "vector_of (Tensor ts) = those (map scalar_of ts)"

text \<open>All elements of a tensor, in row-major order.\<close>

fun flatten :: "'a tensor \<Rightarrow> 'a list" where
  "flatten (Scalar x) = [x]"
| "flatten (Tensor ts) = concat (map flatten ts)"

text \<open>
  \<open>torch.norm(t)\<close>: the square root of the sum of the squares of all elements, over the
  reals (floating-point rounding is not modelled).
\<close>

definition torch_norm :: "real tensor \<Rightarrow> real" where
  "torch_norm t = sqrt (\<Sum>x\<leftarrow>flatten t. x\<^sup>2)"

text \<open>\<open>torch.softmax(v, dim=-1)\<close> of a vector, over the reals.\<close>

definition softmax :: "real list \<Rightarrow> real list" where
  "softmax xs = map (\<lambda>x. exp x / (\<Sum>y\<leftarrow>xs. exp y)) xs"

text \<open>
  \<open>torch.topk(v, k)\<close> of a vector: the \<open>k\<close> largest values in descending order and
  their indices; RuntimeError when \<open>k\<close> exceeds the size. torch leaves the order among
  equal values open; here the lower index comes first. \<open>ranking v\<close> pairs every index
  with its value and sorts the pairs by descending value.
\<close>

definition ranking :: "real list \<Rightarrow> (nat \<times> real) list" where
  "ranking v = sort_key (\<lambda>(i, x). - x) (enumerate 0 v)"

definition topk :: "real list \<Rightarrow> nat \<Rightarrow> (real list \<times> nat list) option" where
  "topk v k =
     (if k > length v then None
      else (let ranked = take k (ranking v)
            in Some (map snd ranked, map fst ranked)))"

text \<open>\<open>str.strip()\<close>: the whitespace code points of Python's \<open>str.isspace\<close>.\<close>

definition py_isspace :: "nat \<Rightarrow> bool" where
  "py_isspace c =
     (9 \<le> c \<and> c \<le> 13 \<or> 28 \<le> c \<and> c \<le> 32 \<or> c = 133 \<or> c = 160 \<or> c = 5760 \<or>
      8192 \<le> c \<and> c \<le> 8202 \<or> c = 8232 \<or> c = 8233 \<or> c = 8239 \<or> c = 8287 \<or> c = 12288)"

definition strip :: "pystr \<Rightarrow> pystr" where
  "strip s = rev (dropWhile py_isspace (rev (dropWhile py_isspace s)))"

section \<open>/next_token\<close>

definition next_token_failure :: response where
  "next_token_failure =
     [(''token'', JStr []), (''token_id'', JInt (- 1)), (''probability'', JFloat 0),
      (''probs'', JList [])]"

definition prob_entry :: "pystr \<times> real \<times> real \<Rightarrow> json" where
  "prob_entry = (\<lambda>(token, prob, logit).
     JObj [(''token'', JStr (strip token)), (''prob'', JFloat prob), (''logit'', JFloat logit)])"

text \<open>
  The body of the \<open>try\<close> block, lines 112-148. \<open>logits[0, -1, :]\<close> is a vector for a
  three-dimensional \<open>logits\<close>; for any other rank one of the later steps raises
  (\<open>idx.item()\<close> on a row of indices, or \<open>top_tokens[0]\<close> on an empty list), so
  \<open>vector_of\<close> fails there.
\<close>

definition next_token_try :: "gpt2_tokenizer \<Rightarrow> gpt2_model \<Rightarrow> pystr \<Rightarrow> response option" where
  "next_token_try tk m text = do {
     inputs \<leftarrow> encode tk text;
     outputs \<leftarrow> forward_ids m inputs;
     batch0 \<leftarrow> getitem (logits outputs) 0;
     last_pos \<leftarrow> getitem batch0 (- 1);
     next_token_logits \<leftarrow> vector_of last_pos;
     let probs = softmax next_token_logits;
     (top_probs_list, top_indices) \<leftarrow> topk probs 10;
     top_tokens \<leftarrow> those (map (\<lambda>idx. decode tk [int idx]) top_indices);
     top_logits \<leftarrow> those (map (nth_opt next_token_logits) top_indices);
     let probs_list = map prob_entry (zip top_tokens (zip top_probs_list top_logits));
     first_token \<leftarrow> nth_opt top_tokens 0;
     let token = strip first_token;
     token_id \<leftarrow> nth_opt top_indices 0;
     probability \<leftarrow> nth_opt top_probs_list 0;
     Some [(''token'', JStr token), (''token_id'', JInt (int token_id)),
           (''probability'', JFloat probability), (''probs'', JList probs_list)]
   }"

definition next_token_prediction ::
  "gpt2_tokenizer option \<Rightarrow> gpt2_model option \<Rightarrow> pystr \<Rightarrow> response" where
  "next_token_prediction tokenizer model text =
     (case (tokenizer, model) of
        (Some tk, Some m) \<Rightarrow>
          (case next_token_try tk m text of
             Some r \<Rightarrow> r
           | None \<Rightarrow> next_token_failure)
      | _ \<Rightarrow> next_token_failure)"

section \<open>/residual_stream\<close>

definition residual_stream_failure :: response where
  "residual_stream_failure =
     [(''layer_values'', JList []), (''tokens'', JList []), (''num_layers'', JInt 0)]"

text \<open>The two nested loops of lines 175-180; an index out of range raises.\<close>

definition values_per_layer :: "real tensor list \<Rightarrow> nat \<Rightarrow> nat \<Rightarrow> real list option" where
  "values_per_layer hs num_layers token_idx =
     those (map (\<lambda>layer_idx. do {
              layer \<leftarrow> nth_opt hs layer_idx;
              batch0 \<leftarrow> getitem layer 0;
              vec \<leftarrow> getitem batch0 (int token_idx);
              Some (torch_norm vec)
            }) [0..<num_layers])"

definition token_layer_values :: "real tensor list \<Rightarrow> nat \<Rightarrow> nat \<Rightarrow> real list list option" where
  "token_layer_values hs num_tokens num_layers =
     those (map (values_per_layer hs num_layers) [0..<num_tokens])"

definition residual_stream_try ::
  "gpt2_tokenizer \<Rightarrow> gpt2_model \<Rightarrow> pystr \<Rightarrow> response option" where
  "residual_stream_try tk m text = do {
     inputs \<leftarrow> tok_call tk text;
     outputs \<leftarrow> forward m inputs True;
     hs \<leftarrow> hidden_states outputs;
     first_layer \<leftarrow> nth_opt hs 0;
     num_tokens \<leftarrow> shape1 first_layer;
     let num_layers = length hs;
     vals \<leftarrow> token_layer_values hs num_tokens num_layers;
     row \<leftarrow> getitem (input_ids inputs) 0;
     tokens \<leftarrow> convert_ids_to_tokens tk row;
     Some [(''layer_values'', JList (map (\<lambda>vs. JList (map JFloat vs)) vals)),
           (''tokens'', JList (map JStr tokens)),
           (''num_layers'', JInt (int num_layers))]
   }"

definition get_residual_stream ::
  "gpt2_tokenizer option \<Rightarrow> gpt2_model option \<Rightarrow> pystr \<Rightarrow> response" where
  "get_residual_stream tokenizer model text =
     (case (tokenizer, model) of
        (Some tk, Some m) \<Rightarrow>
          (case residual_stream_try tk m text of
             Some r \<Rightarrow> r
           | None \<Rightarrow> residual_stream_failure)
      | _ \<Rightarrow> [(''layer_values'', JList [])])"

section \<open>/attention\<close>

definition attention_failure :: response where
  "attention_failure = [(''num_layers'', JInt 0), (''attentions'', JList [])]"

definition attention_try :: "gpt2_tokenizer \<Rightarrow> gpt2_model \<Rightarrow> pystr \<Rightarrow> response option" where
  "attention_try tk m text = do {
     inputs \<leftarrow> tok_call tk text;
     outputs \<leftarrow> forward m inputs False;
     let atts = (case attentions outputs of Some a \<Rightarrow> a | None \<Rightarrow> []);
     let attentions_data =
           (if atts \<noteq> [] then map (\<lambda>layer. tolist JFloat (squeeze0 layer)) atts else []);
     Some [(''num_layers'', JInt (int (length attentions_data))),
           (''attentions'', JList attentions_data)]
   }"

definition get_attention ::
  "gpt2_tokenizer option \<Rightarrow> gpt2_model option \<Rightarrow> pystr \<Rightarrow> response" where
  "get_attention tokenizer model text =
     (case (tokenizer, model) of
        (Some tk, Some m) \<Rightarrow>
          (case attention_try tk m text of
             Some r \<Rightarrow> r
           | None \<Rightarrow> attention_failure)
      | _ \<Rightarrow> attention_failure)"

section \<open>/embeddings\<close>

definition embeddings_failure :: response where
  "embeddings_failure =
     [(''num_layers'', JInt 0), (''hidden_states'', JList []), (''embeddings3d'', JList [])]"

text \<open>
  \<open>PCA(n_components=3).fit_transform(X)\<close> of scikit-learn. The library validates its
  argument before solving: \<open>n_components\<close> must not exceed
  \<open>min(n_samples, n_features)\<close>, else ValueError. The solver itself is the parameter
  \<open>solve\<close>.
\<close>

definition pca_fit_transform ::
  "(real tensor \<Rightarrow> real tensor option) \<Rightarrow> nat \<Rightarrow> real tensor \<Rightarrow> real tensor option" where
  "pca_fit_transform solve n_components X = do {
     n_samples \<leftarrow> len X;
     n_features \<leftarrow> shape1 X;
     if n_components \<le> min n_samples n_features then solve X else None
   }"

text \<open>The inner \<open>try\<close> block, lines 244-247, starting from \<open>embeddings3d = []\<close>.\<close>

definition pca_try :: "(real tensor \<Rightarrow> real tensor option) \<Rightarrow> real tensor \<Rightarrow> json option" where
  "pca_try solve last_hidden = do {
     width \<leftarrow> shape1 last_hidden;
     if width \<ge> 3
     then do { Y \<leftarrow> pca_fit_transform solve 3 last_hidden; Some (tolist JFloat Y) }
     else Some (JList [])
   }"

fun is_list :: "json \<Rightarrow> bool" where
  "is_list (JList xs) = True"
| "is_list _ = False"

definition embeddings_try ::
  "gpt2_tokenizer \<Rightarrow> gpt2_model \<Rightarrow> (real tensor \<Rightarrow> real tensor option) \<Rightarrow> pystr
     \<Rightarrow> response option" where
  "embeddings_try tk m solve text = do {
     inputs \<leftarrow> tok_call tk text;
     outputs \<leftarrow> forward m inputs False;
     let hs = (case hidden_states outputs of Some h \<Rightarrow> h | None \<Rightarrow> []);
     let hidden_states_data = (if hs \<noteq> [] then map squeeze0 hs else []);
     populated \<leftarrow> (if hidden_states_data \<noteq> []
                   then map_option (\<lambda>n. n > 0) (len (last hidden_states_data))
                   else Some False);
     let embeddings3d =
           (if populated
            then (case pca_try solve (last hidden_states_data) of
                    Some e \<Rightarrow> e
                  | None \<Rightarrow> JList [])
            else JList []);
     Some [(''num_layers'', JInt (int (length hidden_states_data))),
           (''hidden_states'', JList (map (tolist JFloat) hidden_states_data)),
           (''embeddings3d'', if is_list embeddings3d then embeddings3d else JList [])]
   }"

definition get_embeddings ::
  "gpt2_tokenizer option \<Rightarrow> gpt2_model option \<Rightarrow> (real tensor \<Rightarrow> real tensor option) \<Rightarrow> pystr
     \<Rightarrow> response" where
  "get_embeddings tokenizer model solve text =
     (case (tokenizer, model) of
        (Some tk, Some m) \<Rightarrow>
          (case embeddings_try tk m solve text of
             Some r \<Rightarrow> r
           | None \<Rightarrow> embeddings_failure)
      | _ \<Rightarrow> embeddings_failure)"

section \<open>/health\<close>

definition health_check :: response where
  "health_check = [(''status'', JStr [111, 107]), (''model'', JStr [103, 112, 116, 50])]"

section \<open>A small tokenizer and model for concrete runs\<close>

text \<open>
  The text "Hello world" as GPT-2 encodes it: ids 15496 and 995, tokens \<open>Hello\<close> and
  \<open>world\<close> with the marker U+0120 in front, a batch of one row.
\<close>

definition hello_world :: pystr where
  "hello_world = [72, 101, 108, 108, 111, 32, 119, 111, 114, 108, 100]"

definition example_encoding :: encoding where
  "example_encoding =
     \<lparr>input_ids = Tensor [Tensor [Scalar 15496, Scalar 995]],
      attention_mask = Tensor [Tensor [Scalar 1, Scalar 1]]\<rparr>"

definition example_vocab :: "int \<Rightarrow> pystr" where
  "example_vocab i =
     (if i = 15496 then [72, 101, 108, 108, 111]
      else if i = 995 then [288, 119, 111, 114, 108, 100]
      else [33])"

definition example_tokenizer :: gpt2_tokenizer where
  "example_tokenizer =
     \<lparr>tok_call = (\<lambda>text. Some example_encoding),
      encode = (\<lambda>text. Some (input_ids example_encoding)),
      convert_ids_to_tokens = (\<lambda>t. map_option (map example_vocab) (vector_of t)),
      decode = (\<lambda>ids. Some (32 # map (\<lambda>i. 97 + nat i) ids))\<rparr>"

text \<open>
  A model with a vocabulary of 11 ids, two layers of hidden states of width 3 and one
  attention layer with one head. At the last position id 3 has logit \<open>ln 2\<close> and every
  other id has logit 0.
\<close>

definition example_outputs :: model_outputs where
  "example_outputs =
     \<lparr>logits = Tensor [Tensor
        [Tensor (map Scalar [0, 0, 0, 0, 0, 0, 0, 0, 0, 0, 0]),
         Tensor (map Scalar [0, 0, 0, ln 2, 0, 0, 0, 0, 0, 0, 0])]],
      hidden_states = Some
        [Tensor [Tensor [Tensor [Scalar 3, Scalar 4, Scalar 0],
                         Tensor [Scalar 0, Scalar 0, Scalar 0]]],
         Tensor [Tensor [Tensor [Scalar 0, Scalar 0, Scalar 1],
                         Tensor [Scalar 0, Scalar 2, Scalar 0]]]],
      attentions = Some
        [Tensor [Tensor [Tensor [Tensor [Scalar 1, Scalar 0],
                                 Tensor [Scalar (1 / 2), Scalar (1 / 2)]]]]]\<rparr>"

definition example_model :: gpt2_model where
  "example_model =
     \<lparr>forward_ids = (\<lambda>ids. Some example_outputs),
      forward = (\<lambda>inputs b. Some example_outputs)\<rparr>"

text \<open>What /next_token answers for this tokenizer and model.\<close>

definition example_next_token :: response where
  "example_next_token =
     [(''token'', JStr [100]), (''token_id'', JInt 3), (''probability'', JFloat (1 / 6)),
      (''probs'', JList
         [JObj [(''token'', JStr [100]), (''prob'', JFloat (1 / 6)), (''logit'', JFloat (ln 2))],
          JObj [(''token'', JStr [97]), (''prob'', JFloat (1 / 12)), (''logit'', JFloat 0)],
          JObj [(''token'', JStr [98]), (''prob'', JFloat (1 / 12)), (''logit'', JFloat 0)],
          JObj [(''token'', JStr [99]), (''prob'', JFloat (1 / 12)), (''logit'', JFloat 0)],
          JObj [(''token'', JStr [101]), (''prob'', JFloat (1 / 12)), (''logit'', JFloat 0)],
          JObj [(''token'', JStr [102]), (''prob'', JFloat (1 / 12)), (''logit'', JFloat 0)],
          JObj [(''token'', JStr [103]), (''prob'', JFloat (1 / 12)), (''logit'', JFloat 0)],
          JObj [(''token'', JStr [104]), (''prob'', JFloat (1 / 12)), (''logit'', JFloat 0)],
          JObj [(''token'', JStr [105]), (''prob'', JFloat (1 / 12)), (''logit'', JFloat 0)],
          JObj [(''token'', JStr [106]), (''prob'', JFloat (1 / 12)), (''logit'', JFloat 0)]])]"

text \<open>What /residual_stream answers for this tokenizer and model.\<close>

definition example_residual_stream :: response where
  "example_residual_stream =
     [(''layer_values'', JList [JList [JFloat 5, JFloat 1], JList [JFloat 0, JFloat 2]]),
      (''tokens'', JList [JStr [72, 101, 108, 108, 111],
                          JStr [288, 119, 111, 114, 108, 100]]),
      (''num_layers'', JInt 2)]"

text \<open>What /embeddings answers for them: two tokens are too few for the projection.\<close>

definition example_embeddings :: response where
  "example_embeddings =
     [(''num_layers'', JInt 2),
      (''hidden_states'', JList
         [JList [JList [JFloat 3, JFloat 4, JFloat 0], JList [JFloat 0, JFloat 0, JFloat 0]],
          JList [JList [JFloat 0, JFloat 0, JFloat 1], JList [JFloat 0, JFloat 2, JFloat 0]]]),
      (''embeddings3d'', JList [])]"

text \<open>A model whose single layer of hidden states has three tokens of width 3.\<close>

definition three_token_model :: gpt2_model where
  "three_token_model =
     \<lparr>forward_ids = (\<lambda>ids. None),
      forward = (\<lambda>inputs b. Some
        \<lparr>logits = Tensor [],
         hidden_states = Some
           [Tensor [Tensor [Tensor [Scalar 1, Scalar 0, Scalar 0],
                            Tensor [Scalar 0, Scalar 1, Scalar 0],
                            Tensor [Scalar 0, Scalar 0, Scalar 1]]]],
         attentions = None\<rparr>)\<rparr>"

text \<open>A tokenizer whose every call raises.\<close>

definition failing_tokenizer :: gpt2_tokenizer where
  "failing_tokenizer =
     \<lparr>tok_call = (\<lambda>text. None), encode = (\<lambda>text. None),
      convert_ids_to_tokens = (\<lambda>t. None), decode = (\<lambda>ids. None)\<rparr>"

text \<open>A PCA solver that returns a row of three zeros for every sample.\<close>

definition example_solver :: "real tensor \<Rightarrow> real tensor option" where
  "example_solver X =
     map_option (\<lambda>n. Tensor (replicate n (Tensor [Scalar 0, Scalar 0, Scalar 0]))) (len X)"

section \<open>Properties of /tokenize\<close>

lemma clean_token_display:
  "(if startswith t [288] then [32] @ drop 1 t else t) = display_token t"
  by (cases t) (simp_all add: startswith_def)

lemma set_dedup_first: "set (dedup_first xs) = set xs"
  by (induction xs rule: dedup_first.induct) auto

lemma distinct_dedup_first: "distinct (dedup_first xs)"
  by (induction xs rule: dedup_first.induct) (auto simp: set_dedup_first)

lemma length_dedup_first: "length (dedup_first xs) \<le> length xs"
proof (induction xs rule: dedup_first.induct)
  case 1
  show ?case by simp
next
  case (2 x xs)
  have "length (filter (\<lambda>y. y \<noteq> x) xs) \<le> length xs" by simp
  with 2 show ?case by (simp add: le_SucI order_trans)
qed

text \<open>
  The loop with its accumulators: what it has collected so far stays in front, and of
  the remaining tokens those not yet seen are appended, each once.
\<close>

lemma clean_loop_acc:
  "clean_loop ts acc (set acc) =
     acc @ dedup_first (filter (\<lambda>x. x \<notin> set acc) (map display_token ts))"
proof (induction ts arbitrary: acc)
  case Nil
  show ?case by simp
next
  case (Cons t ts)
  let ?c = "display_token t"
  show ?case
  proof (cases "?c \<in> set acc")
    case True
    then show ?thesis
      using Cons.IH [of acc]
      by (simp add: clean_token_display Let_def del: display_token.simps)
  next
    case False
    have "clean_loop (t # ts) acc (set acc) = clean_loop ts (acc @ [?c]) (set (acc @ [?c]))"
      using False by (simp add: clean_token_display Let_def del: display_token.simps)
    also have "\<dots> = (acc @ [?c]) @
        dedup_first (filter (\<lambda>x. x \<notin> set (acc @ [?c])) (map display_token ts))"
      by (rule Cons.IH)
    also have "\<dots> = acc @
        dedup_first (filter (\<lambda>x. x \<notin> set acc) (map display_token (t # ts)))"
      using False by (simp add: conj_commute del: display_token.simps)
    finally show ?thesis .
  qed
qed

lemma clean_loop_spec: "clean_loop ts [] {} = dedup_first (map display_token ts)"
  using clean_loop_acc [of ts "[]"] by simp

lemma tokenize_try_SomeD:
  assumes "tokenize_try tk text = Some r"
  obtains inputs row raw where
    "tok_call tk text = Some inputs"
    "getitem (input_ids inputs) 0 = Some row"
    "convert_ids_to_tokens tk row = Some raw"
    "r = [(''input_ids'', tolist JInt row),
          (''tokens'', JList (map JStr (clean_loop raw [] {}))),
          (''attention_mask'', tolist JInt (attention_mask inputs))]"
  using assms unfolding tokenize_try_def
  by (auto split: Option.bind_splits)

text \<open>
  C3. When /tokenize succeeds, its \<open>tokens\<close> field is the raw token sequence with every
  leading marker U+0120 rewritten to a space and then deduplicated by string equality,
  the first occurrence kept: the strings are pairwise different, they are the cleaned
  strings that occur, and there are no more of them than raw tokens. Where the tokenizer
  gives one raw token per id, \<open>len(tokens) \<le> len(input_ids)\<close>.
\<close>

theorem tokenize_tokens_cleaned_deduplicated:
  assumes "tokenize_try tk text = Some r"
  shows "tokenize_text (Some tk) text = r \<and>
    (\<exists>inputs row raw.
       tok_call tk text = Some inputs \<and>
       getitem (input_ids inputs) 0 = Some row \<and>
       convert_ids_to_tokens tk row = Some raw \<and>
       field r ''tokens'' = Some (JList (map JStr (dedup_first (map display_token raw)))) \<and>
       distinct (dedup_first (map display_token raw)) \<and>
       set (dedup_first (map display_token raw)) = display_token ` set raw \<and>
       length (dedup_first (map display_token raw)) \<le> length raw \<and>
       field r ''input_ids'' = Some (tolist JInt row) \<and>
       (len row = Some (length raw) \<longrightarrow>
          (\<exists>n k. json_len (the (field r ''tokens'')) = Some n \<and>
                 json_len (the (field r ''input_ids'')) = Some k \<and> n \<le> k)))"
proof -
  from assms obtain inputs row raw where
    h: "tok_call tk text = Some inputs" "getitem (input_ids inputs) 0 = Some row"
       "convert_ids_to_tokens tk row = Some raw"
    and r: "r = [(''input_ids'', tolist JInt row),
                 (''tokens'', JList (map JStr (clean_loop raw [] {}))),
                 (''attention_mask'', tolist JInt (attention_mask inputs))]"
    by (rule tokenize_try_SomeD)
  let ?d = "dedup_first (map display_token raw)"
  have tok: "field r ''tokens'' = Some (JList (map JStr ?d))"
    by (simp add: r field_def clean_loop_spec)
  have ids: "field r ''input_ids'' = Some (tolist JInt row)"
    by (simp add: r field_def)
  have le: "length ?d \<le> length raw"
    using length_dedup_first [of "map display_token raw"] by simp
  have aligned: "\<exists>n k. json_len (the (field r ''tokens'')) = Some n \<and>
                 json_len (the (field r ''input_ids'')) = Some k \<and> n \<le> k"
    if "len row = Some (length raw)"
  proof -
    from that obtain ts where "row = Tensor ts" "length ts = length raw"
      by (cases row) auto
    then show ?thesis using le by (simp add: tok ids)
  qed
  have "tokenize_text (Some tk) text = r"
    by (simp add: tokenize_text_def assms)
  moreover have "distinct ?d" by (rule distinct_dedup_first)
  moreover have "set ?d = display_token ` set raw" by (simp add: set_dedup_first)
  ultimately show ?thesis
    using h tok ids le aligned by blast
qed

theorem tokenize_tokens_cleaned_deduplicated_witness:
  "tokenize_try example_tokenizer hello_world =
     Some [(''input_ids'', JList [JInt 15496, JInt 995]),
           (''tokens'', JList [JStr [72, 101, 108, 108, 111],
                               JStr [32, 119, 111, 114, 108, 100]]),
           (''attention_mask'', JList [JList [JInt 1, JInt 1]])] \<and>
   tokenize_text (Some example_tokenizer) hello_world =
     [(''input_ids'', JList [JInt 15496, JInt 995]),
      (''tokens'', JList [JStr [72, 101, 108, 108, 111],
                          JStr [32, 119, 111, 114, 108, 100]]),
      (''attention_mask'', JList [JList [JInt 1, JInt 1]])]"
proof
  show run: "tokenize_try example_tokenizer hello_world =
     Some [(''input_ids'', JList [JInt 15496, JInt 995]),
           (''tokens'', JList [JStr [72, 101, 108, 108, 111],
                               JStr [32, 119, 111, 114, 108, 100]]),
           (''attention_mask'', JList [JList [JInt 1, JInt 1]])]"
    by (simp add: tokenize_try_def example_tokenizer_def example_encoding_def
        example_vocab_def startswith_def)
  show "tokenize_text (Some example_tokenizer) hello_world =
     [(''input_ids'', JList [JInt 15496, JInt 995]),
      (''tokens'', JList [JStr [72, 101, 108, 108, 111],
                          JStr [32, 119, 111, 114, 108, 100]]),
      (''attention_mask'', JList [JList [JInt 1, JInt 1]])]"
    using tokenize_tokens_cleaned_deduplicated [OF run] by (rule conjunct1)
qed

text \<open>
  C2. On "Hello world" (two tokens) /tokenize succeeds; \<open>input_ids\<close> is the flat list of
  the two ids, while \<open>attention_mask\<close> is the whole batch, a list holding one list of
  ones: its length is 1, not 2, and its only element is a list, not the number 1.
\<close>

theorem tokenize_attention_mask_keeps_batch:
  "field (tokenize_text (Some example_tokenizer) hello_world) ''input_ids'' =
     Some (JList [JInt 15496, JInt 995]) \<and>
   field (tokenize_text (Some example_tokenizer) hello_world) ''attention_mask'' =
     Some (JList [JList [JInt 1, JInt 1]]) \<and>
   json_len (JList [JInt 15496, JInt 995]) = Some 2 \<and>
   json_len (JList [JList [JInt 1, JInt 1]]) = Some 1"
  by (simp add: tokenize_text_def tokenize_try_def example_tokenizer_def
      example_encoding_def example_vocab_def startswith_def field_def)

section \<open>Properties of /next_token\<close>

lemma those_map_Some:
  "those (map f xs) = Some ys \<Longrightarrow> ys = map (\<lambda>x. the (f x)) xs \<and> (\<forall>x\<in>set xs. f x \<noteq> None)"
  by (induction xs arbitrary: ys) (auto split: option.splits)

lemma those_map_length: "those (map f xs) = Some ys \<Longrightarrow> length ys = length xs"
  by (drule those_map_Some) simp

lemma those_map_nth:
  "those (map f xs) = Some ys \<Longrightarrow> i < length xs \<Longrightarrow> f (xs ! i) = Some (ys ! i)"
  by (drule those_map_Some) auto

lemma length_ranking: "length (ranking v) = length v"
  by (simp add: ranking_def)

lemma set_ranking: "set (ranking v) = {(i, v ! i) | i. i < length v}"
  by (auto simp: ranking_def in_set_enumerate_eq)

lemma ranking_entry:
  assumes "j < length v"
  shows "fst (ranking v ! j) < length v \<and> snd (ranking v ! j) = v ! fst (ranking v ! j)"
proof -
  have "ranking v ! j \<in> set (ranking v)"
    using assms by (simp add: length_ranking)
  then show ?thesis by (auto simp: set_ranking)
qed

lemma ranking_desc: "sorted_wrt (\<lambda>a b. snd a \<ge> snd b) (ranking v)"
proof -
  have "sorted (map (\<lambda>(i, x). - x) (ranking v))"
    unfolding ranking_def by (rule sorted_sort_key)
  then show ?thesis
    by (simp add: sorted_map case_prod_beta)
qed

lemma ranking_head_max:
  assumes "x \<in> set v"
  shows "x \<le> snd (ranking v ! 0)"
proof -
  obtain i where i: "i < length v" "x = v ! i"
    using assms by (auto simp: in_set_conv_nth)
  then have "(i, x) \<in> set (ranking v)" by (auto simp: set_ranking)
  then obtain j where j: "j < length (ranking v)" "ranking v ! j = (i, x)"
    by (auto simp: in_set_conv_nth)
  show ?thesis
  proof (cases "j = 0")
    case True
    with j show ?thesis by simp
  next
    case False
    then have "0 < j" by simp
    from sorted_wrt_nth_less [OF ranking_desc this j(1)] j(2) show ?thesis by simp
  qed
qed

lemma distinct_ranking: "distinct (map fst (ranking v))"
proof -
  have "distinct (ranking v)"
    by (simp add: ranking_def)
  moreover have "inj_on fst (set (ranking v))"
    by (auto simp: set_ranking inj_on_def)
  ultimately show ?thesis
    by (simp add: distinct_map)
qed

lemma topk_SomeD:
  assumes "topk v k = Some (ps, ids)"
  shows "k \<le> length v" "ps = map snd (take k (ranking v))" "ids = map fst (take k (ranking v))"
  using assms by (auto simp: topk_def Let_def split: if_splits)

lemma topk_props:
  assumes "topk v k = Some (ps, ids)"
  shows "length ps = k" "length ids = k" "distinct ids"
    "sorted_wrt (\<lambda>a b. a \<ge> b) ps"
    "j < k \<Longrightarrow> ids ! j < length v \<and> ps ! j = v ! (ids ! j)"
    "0 < k \<Longrightarrow> x \<in> set v \<Longrightarrow> x \<le> ps ! 0"
proof -
  note d = topk_SomeD [OF assms]
  show "length ps = k" "length ids = k"
    using d by (simp_all add: length_ranking)
  show "distinct ids"
    using distinct_ranking [of v] d(3) by (simp add: take_map [symmetric] distinct_take)
  have "sorted_wrt (\<lambda>a b. snd a \<ge> snd b) (take k (ranking v))"
    using ranking_desc [of v] by (rule sorted_wrt_take)
  then show "sorted_wrt (\<lambda>a b. a \<ge> b) ps"
    by (simp add: d(2) sorted_wrt_map)
  show "ids ! j < length v \<and> ps ! j = v ! (ids ! j)" if "j < k"
    using that d ranking_entry [of j v] by (simp add: length_ranking)
  show "x \<le> ps ! 0" if "0 < k" "x \<in> set v"
    using that d ranking_head_max [of x v] by (simp add: length_ranking)
qed


lemma ranking_rest_below:
  assumes "i < length v" "i \<notin> set (map fst (take k (ranking v)))" "j < k"
  shows "v ! i \<le> snd (ranking v ! j)"
proof -
  have "(i, v ! i) \<in> set (ranking v)"
    using assms(1) by (auto simp: set_ranking)
  then obtain n where n: "n < length (ranking v)" "ranking v ! n = (i, v ! i)"
    by (auto simp: in_set_conv_nth)
  have "\<not> n < k"
  proof
    assume "n < k"
    then have "take k (ranking v) ! n = (i, v ! i)" "n < length (take k (ranking v))"
      using n by simp_all
    then have "(i, v ! i) \<in> set (take k (ranking v))"
      by (metis nth_mem)
    then have "i \<in> set (map fst (take k (ranking v)))"
      by force
    with assms(2) show False by simp
  qed
  with assms(3) have "j < n" by simp
  from sorted_wrt_nth_less [OF ranking_desc this n(1)] n(2) show ?thesis by simp
qed

lemma topk_rest_below:
  assumes "topk v k = Some (ps, ids)" "i < length v" "i \<notin> set ids" "j < k"
  shows "v ! i \<le> ps ! j"
proof -
  note d = topk_SomeD [OF assms(1)]
  have "v ! i \<le> snd (ranking v ! j)"
    using assms(2,3,4) d(3) by (intro ranking_rest_below [where k = k]) simp_all
  then show ?thesis
    using d assms(4) by (simp add: length_ranking)
qed

lemma next_token_try_SomeD:
  assumes "next_token_try tk m text = Some r"
  obtains inputs outputs batch0 last_pos v ps ids toks lgs where
    "encode tk text = Some inputs"
    "forward_ids m inputs = Some outputs"
    "getitem (logits outputs) 0 = Some batch0"
    "getitem batch0 (- 1) = Some last_pos"
    "vector_of last_pos = Some v"
    "topk (softmax v) 10 = Some (ps, ids)"
    "those (map (\<lambda>idx. decode tk [int idx]) ids) = Some toks"
    "those (map (nth_opt v) ids) = Some lgs"
    "r = [(''token'', JStr (strip (toks ! 0))), (''token_id'', JInt (int (ids ! 0))),
          (''probability'', JFloat (ps ! 0)),
          (''probs'', JList (map prob_entry (zip toks (zip ps lgs))))]"
  using assms unfolding next_token_try_def
  by (auto simp: nth_opt_def Let_def split: Option.bind_splits prod.splits if_splits)

lemma length_softmax: "length (softmax v) = length v"
  by (simp add: softmax_def)

text \<open>The entries of the \<open>probs\<close> list, position by position.\<close>

lemma probs_entry_nth:
  assumes "length toks = n" "length ps = n" "length lgs = n" "j < n"
  shows "map prob_entry (zip toks (zip ps lgs)) ! j =
     JObj [(''token'', JStr (strip (toks ! j))), (''prob'', JFloat (ps ! j)),
           (''logit'', JFloat (lgs ! j))]"
  using assms by (simp add: prob_entry_def)

text \<open>
  C5. A successful /next_token response has exactly 10 entries in \<open>probs\<close> (the vocabulary
  then has at least 10 ids; with fewer, \<open>topk\<close> raises and the response is the failure
  payload). The entries belong to 10 different ids, their probabilities descend, no id
  left out has a larger probability than a listed one, and entry \<open>j\<close> holds the stripped decoding of its id, the softmax of the final-position
  logits at that id, and the logit of that id as it is.
\<close>

theorem next_token_top10:
  assumes "next_token_try tk m text = Some r"
  shows "next_token_prediction (Some tk) (Some m) text = r \<and>
    (\<exists>inputs outputs batch0 last_pos v ps ids entries.
       encode tk text = Some inputs \<and> forward_ids m inputs = Some outputs \<and>
       getitem (logits outputs) 0 = Some batch0 \<and> getitem batch0 (- 1) = Some last_pos \<and>
       vector_of last_pos = Some v \<and>
       10 \<le> length v \<and>
       field r ''probs'' = Some (JList entries) \<and>
       length entries = 10 \<and> length ids = 10 \<and> length ps = 10 \<and> distinct ids \<and>
       sorted_wrt (\<lambda>a b. a \<ge> b) ps \<and>
       (\<forall>i<length v. i \<notin> set ids \<longrightarrow> (\<forall>j<10. softmax v ! i \<le> ps ! j)) \<and>
       (\<forall>j<10. ids ! j < length v \<and>
          ps ! j = softmax v ! (ids ! j) \<and>
          (\<exists>tok. decode tk [int (ids ! j)] = Some tok \<and>
             entries ! j = JObj [(''token'', JStr (strip tok)), (''prob'', JFloat (ps ! j)),
                                 (''logit'', JFloat (v ! (ids ! j)))])))"
proof -
  from assms obtain inputs outputs batch0 last_pos v ps ids toks lgs where
    h: "encode tk text = Some inputs" "forward_ids m inputs = Some outputs"
       "getitem (logits outputs) 0 = Some batch0" "getitem batch0 (- 1) = Some last_pos"
       "vector_of last_pos = Some v"
    and tk: "topk (softmax v) 10 = Some (ps, ids)"
    and toks: "those (map (\<lambda>idx. decode tk [int idx]) ids) = Some toks"
    and lgs: "those (map (nth_opt v) ids) = Some lgs"
    and r: "r = [(''token'', JStr (strip (toks ! 0))), (''token_id'', JInt (int (ids ! 0))),
          (''probability'', JFloat (ps ! 0)),
          (''probs'', JList (map prob_entry (zip toks (zip ps lgs))))]"
    by (rule next_token_try_SomeD)
  let ?entries = "map prob_entry (zip toks (zip ps lgs))"
  note p = topk_props [OF tk]
  have len: "length toks = 10" "length lgs = 10"
    using those_map_length [OF toks] those_map_length [OF lgs] p(2) by simp_all
  have big: "10 \<le> length v"
    using topk_SomeD(1) [OF tk] by (simp add: length_softmax)
  have f: "field r ''probs'' = Some (JList ?entries)"
    by (simp add: r field_def)
  have le: "length ?entries = 10"
    using len p(1) by simp
  have each: "ids ! j < length v \<and> ps ! j = softmax v ! (ids ! j) \<and>
          (\<exists>tok. decode tk [int (ids ! j)] = Some tok \<and>
             ?entries ! j = JObj [(''token'', JStr (strip tok)), (''prob'', JFloat (ps ! j)),
                                 (''logit'', JFloat (v ! (ids ! j)))])" if j: "j < 10" for j
  proof -
    have a: "ids ! j < length v" "ps ! j = softmax v ! (ids ! j)"
      using p(5) [OF j] by (simp_all add: length_softmax)
    have b: "decode tk [int (ids ! j)] = Some (toks ! j)"
      using those_map_nth [OF toks, of j] j p(2) by simp
    have "nth_opt v (ids ! j) = Some (lgs ! j)"
      using those_map_nth [OF lgs, of j] j p(2) by simp
    then have c: "lgs ! j = v ! (ids ! j)"
      by (simp add: nth_opt_def split: if_splits)
    have "?entries ! j = JObj [(''token'', JStr (strip (toks ! j))), (''prob'', JFloat (ps ! j)),
           (''logit'', JFloat (lgs ! j))]"
      using len p(1) j by (intro probs_entry_nth [where n = 10]) simp_all
    with a b c show ?thesis by simp
  qed
  have rest: "\<forall>i<length v. i \<notin> set ids \<longrightarrow> (\<forall>j<10. softmax v ! i \<le> ps ! j)"
    using topk_rest_below [OF tk] by (simp add: length_softmax)
  have "next_token_prediction (Some tk) (Some m) text = r"
    by (simp add: next_token_prediction_def assms)
  then show ?thesis
    using h big f le p(1,2,3,4) rest each by blast
qed


lemma ex_softmax:
  "softmax [0, 0, 0, ln 2, 0, 0, 0, 0, 0, 0, 0] =
     [1 / 12, 1 / 12, 1 / 12, 1 / 6, 1 / 12, 1 / 12, 1 / 12, 1 / 12, 1 / 12, 1 / 12, 1 / 12]"
  by (simp add: softmax_def)

lemma example_next_token_run:
  "next_token_try example_tokenizer example_model hello_world = Some example_next_token"
  by (simp add: next_token_try_def example_tokenizer_def example_model_def example_outputs_def
      example_encoding_def ex_softmax topk_def ranking_def nth_opt_def prob_entry_def
      strip_def py_isspace_def example_next_token_def)

theorem next_token_top10_witness:
  "next_token_try example_tokenizer example_model hello_world = Some example_next_token \<and>
   (\<exists>entries. field (next_token_prediction (Some example_tokenizer) (Some example_model)
        hello_world) ''probs'' = Some (JList entries) \<and> length entries = 10)"
proof
  show "next_token_try example_tokenizer example_model hello_world = Some example_next_token"
    by (rule example_next_token_run)
  show "\<exists>entries. field (next_token_prediction (Some example_tokenizer) (Some example_model)
        hello_world) ''probs'' = Some (JList entries) \<and> length entries = 10"
    using next_token_top10 [OF example_next_token_run] by metis
qed

text \<open>
  C6. When the tokenizer or the model is unavailable, or anything raises inside the
  handler, /next_token answers with \<open>token = ""\<close>, \<open>token_id = -1\<close>,
  \<open>probability = 0.0\<close>, \<open>probs = []\<close>; the handler always returns a dictionary with these
  four keys.
\<close>

theorem next_token_failure_payload:
  "(tokenizer = None \<or> model = None \<or>
      (\<exists>tk m. tokenizer = Some tk \<and> model = Some m \<and> next_token_try tk m text = None)
    \<longrightarrow> next_token_prediction tokenizer model text =
          [(''token'', JStr []), (''token_id'', JInt (- 1)), (''probability'', JFloat 0),
           (''probs'', JList [])]) \<and>
   keys (next_token_prediction tokenizer model text) =
     {''token'', ''token_id'', ''probability'', ''probs''}"
proof -
  have k: "keys next_token_failure = {''token'', ''token_id'', ''probability'', ''probs''}"
    by (auto simp: next_token_failure_def keys_def)
  have s: "keys r = {''token'', ''token_id'', ''probability'', ''probs''}"
    if "next_token_try tk m text = Some r" for tk m r
    using that by (rule next_token_try_SomeD) (auto simp: keys_def)
  show ?thesis
    using k s
    by (auto simp: next_token_prediction_def next_token_failure_def split: option.splits)
qed

theorem next_token_failure_payload_witness:
  "next_token_try failing_tokenizer example_model hello_world = None \<and>
   next_token_prediction (Some failing_tokenizer) (Some example_model) hello_world =
     [(''token'', JStr []), (''token_id'', JInt (- 1)), (''probability'', JFloat 0),
      (''probs'', JList [])] \<and>
   next_token_prediction None (Some example_model) hello_world =
     [(''token'', JStr []), (''token_id'', JInt (- 1)), (''probability'', JFloat 0),
      (''probs'', JList [])]"
proof -
  have n: "next_token_try failing_tokenizer example_model hello_world = None"
    by (simp add: next_token_try_def failing_tokenizer_def)
  show ?thesis
    using n
      next_token_failure_payload [of "Some failing_tokenizer" "Some example_model" hello_world]
      next_token_failure_payload [of None "Some example_model" hello_world]
    by simp
qed

text \<open>
  C10. In a successful /next_token response the top-level \<open>token\<close> and \<open>probability\<close>
  are those of the first entry of \<open>probs\<close>, no returned probability is larger than
  \<open>probability\<close>, and \<open>token_id\<close> is an id of the vocabulary whose softmax probability
  is \<open>probability\<close>, the largest of the whole distribution.
\<close>

theorem next_token_top_fields_agree:
  assumes "next_token_try tk m text = Some r"
  shows "next_token_prediction (Some tk) (Some m) text = r \<and>
    (\<exists>entries tok p i inputs outputs batch0 last_pos v.
       field r ''probs'' = Some (JList entries) \<and> entries \<noteq> [] \<and>
       field r ''token'' = Some (JStr tok) \<and>
       obj_field (entries ! 0) ''token'' = Some (JStr tok) \<and>
       field r ''probability'' = Some (JFloat p) \<and>
       obj_field (entries ! 0) ''prob'' = Some (JFloat p) \<and>
       (\<forall>e\<in>set entries. \<exists>q. obj_field e ''prob'' = Some (JFloat q) \<and> q \<le> p) \<and>
       field r ''token_id'' = Some (JInt (int i)) \<and>
       encode tk text = Some inputs \<and> forward_ids m inputs = Some outputs \<and>
       getitem (logits outputs) 0 = Some batch0 \<and> getitem batch0 (- 1) = Some last_pos \<and>
       vector_of last_pos = Some v \<and>
       i < length v \<and> softmax v ! i = p \<and> (\<forall>x\<in>set (softmax v). x \<le> p))"
proof -
  from assms obtain inputs outputs batch0 last_pos v ps ids toks lgs where
    h: "encode tk text = Some inputs" "forward_ids m inputs = Some outputs"
       "getitem (logits outputs) 0 = Some batch0" "getitem batch0 (- 1) = Some last_pos"
       "vector_of last_pos = Some v"
    and tk: "topk (softmax v) 10 = Some (ps, ids)"
    and toks: "those (map (\<lambda>idx. decode tk [int idx]) ids) = Some toks"
    and lgs: "those (map (nth_opt v) ids) = Some lgs"
    and r: "r = [(''token'', JStr (strip (toks ! 0))), (''token_id'', JInt (int (ids ! 0))),
          (''probability'', JFloat (ps ! 0)),
          (''probs'', JList (map prob_entry (zip toks (zip ps lgs))))]"
    by (rule next_token_try_SomeD)
  let ?entries = "map prob_entry (zip toks (zip ps lgs))"
  note p = topk_props [OF tk]
  have len: "length toks = 10" "length lgs = 10"
    using those_map_length [OF toks] those_map_length [OF lgs] p(2) by simp_all
  have e0: "?entries ! 0 = JObj [(''token'', JStr (strip (toks ! 0))),
      (''prob'', JFloat (ps ! 0)), (''logit'', JFloat (lgs ! 0))]"
    using len p(1) by (intro probs_entry_nth [where n = 10]) simp_all
  have ne: "?entries \<noteq> []"
    using len p(1) by auto
  have top: "x \<le> ps ! 0" if "x \<in> set (softmax v)" for x
    using p(6) [OF _ that] by simp
  have sub: "set ps \<subseteq> set (softmax v)"
  proof
    fix q assume "q \<in> set ps"
    then obtain j where "j < 10" "q = ps ! j"
      using p(1) by (auto simp: in_set_conv_nth)
    then show "q \<in> set (softmax v)"
      using p(5) [of j] by (simp add: length_softmax)
  qed
  have all: "\<exists>q. obj_field e ''prob'' = Some (JFloat q) \<and> q \<le> ps ! 0"
    if "e \<in> set ?entries" for e
  proof -
    from that obtain t q l where e: "e = prob_entry (t, q, l)"
      and z: "(t, q, l) \<in> set (zip toks (zip ps lgs))"
      by auto
    from z have "(q, l) \<in> set (zip ps lgs)" by (rule set_zip_rightD)
    then have "q \<in> set ps" by (rule set_zip_leftD)
    note e this
    then show ?thesis using sub top by (auto simp: prob_entry_def)
  qed
  have i: "ids ! 0 < length v" "softmax v ! (ids ! 0) = ps ! 0"
    using p(5) [of 0] by (simp_all add: length_softmax)
  have "next_token_prediction (Some tk) (Some m) text = r"
    by (simp add: next_token_prediction_def assms)
  moreover have "field r ''probs'' = Some (JList ?entries)"
    "field r ''token'' = Some (JStr (strip (toks ! 0)))"
    "field r ''probability'' = Some (JFloat (ps ! 0))"
    "field r ''token_id'' = Some (JInt (int (ids ! 0)))"
    by (simp_all add: r field_def)
  moreover have "obj_field (?entries ! 0) ''token'' = Some (JStr (strip (toks ! 0)))"
    "obj_field (?entries ! 0) ''prob'' = Some (JFloat (ps ! 0))"
    by (simp_all add: e0)
  ultimately show ?thesis
    using h ne all i top by blast
qed

theorem next_token_top_fields_agree_witness:
  "next_token_try example_tokenizer example_model hello_world = Some example_next_token \<and>
   next_token_prediction (Some example_tokenizer) (Some example_model) hello_world =
     example_next_token"
proof
  show run: "next_token_try example_tokenizer example_model hello_world =
      Some example_next_token"
    by (rule example_next_token_run)
  show "next_token_prediction (Some example_tokenizer) (Some example_model) hello_world =
     example_next_token"
    using next_token_top_fields_agree [OF run] by (rule conjunct1)
qed

section \<open>Properties of /residual_stream\<close>

text \<open>
  C1. When the tokenizer or the model is unavailable, /residual_stream answers with the
  single key \<open>layer_values\<close>: the keys \<open>tokens\<close> and \<open>num_layers\<close>, which the handler's
  own failure payload after an exception carries, are missing.
\<close>

theorem residual_stream_unavailable_drops_keys:
  "get_residual_stream None model text = [(''layer_values'', JList [])] \<and>
   get_residual_stream tokenizer None text = [(''layer_values'', JList [])] \<and>
   keys (get_residual_stream None None text) = {''layer_values''} \<and>
   field (get_residual_stream None None text) ''tokens'' = None \<and>
   field (get_residual_stream None None text) ''num_layers'' = None \<and>
   keys residual_stream_failure = {''layer_values'', ''tokens'', ''num_layers''}"
  by (auto simp: get_residual_stream_def keys_def field_def residual_stream_failure_def
      split: option.splits)

lemma torch_norm_nonneg: "0 \<le> torch_norm t"
  unfolding torch_norm_def by (intro real_sqrt_ge_zero sum_list_nonneg) auto

lemma values_per_layer_SomeD:
  assumes "values_per_layer hs n t = Some vs"
  shows "length vs = n"
    and "l < n \<Longrightarrow> \<exists>layer batch0 vec. nth_opt hs l = Some layer \<and>
           getitem layer 0 = Some batch0 \<and> getitem batch0 (int t) = Some vec \<and>
           vs ! l = torch_norm vec"
proof -
  note a = assms [unfolded values_per_layer_def]
  show "length vs = n"
    using those_map_length [OF a] by simp
  show "\<exists>layer batch0 vec. nth_opt hs l = Some layer \<and>
           getitem layer 0 = Some batch0 \<and> getitem batch0 (int t) = Some vec \<and>
           vs ! l = torch_norm vec" if "l < n"
    using those_map_nth [OF a, of l] that
    by (auto split: Option.bind_splits)
qed

lemma token_layer_values_SomeD:
  assumes "token_layer_values hs num_tokens num_layers = Some vals"
  shows "length vals = num_tokens"
    and "t < num_tokens \<Longrightarrow> values_per_layer hs num_layers t = Some (vals ! t)"
proof -
  note a = assms [unfolded token_layer_values_def]
  show "length vals = num_tokens"
    using those_map_length [OF a] by simp
  show "values_per_layer hs num_layers t = Some (vals ! t)" if "t < num_tokens"
    using those_map_nth [OF a, of t] that by simp
qed

lemma residual_stream_try_SomeD:
  assumes "residual_stream_try tk m text = Some r"
  obtains inputs outputs hs first_layer num_tokens vals row tokens where
    "tok_call tk text = Some inputs"
    "forward m inputs True = Some outputs"
    "hidden_states outputs = Some hs"
    "nth_opt hs 0 = Some first_layer"
    "shape1 first_layer = Some num_tokens"
    "token_layer_values hs num_tokens (length hs) = Some vals"
    "getitem (input_ids inputs) 0 = Some row"
    "convert_ids_to_tokens tk row = Some tokens"
    "r = [(''layer_values'', JList (map (\<lambda>vs. JList (map JFloat vs)) vals)),
          (''tokens'', JList (map JStr tokens)),
          (''num_layers'', JInt (int (length hs)))]"
  using assms unfolding residual_stream_try_def
  by (auto simp: Let_def split: Option.bind_splits)

text \<open>
  C7. A successful /residual_stream response has one entry in \<open>layer_values\<close> per token
  position of the hidden states (\<open>hidden_states[0].shape[1]\<close>, which is the number of
  input tokens when the model keeps the sequence length), every entry has \<open>num_layers\<close>
  values, \<open>num_layers\<close> is the number of hidden-state layers the model returned, and
  the value for token \<open>t\<close> and layer \<open>l\<close> is the Euclidean norm of that token's hidden
  vector at that layer, hence not negative.
\<close>

theorem residual_stream_norms:
  assumes "residual_stream_try tk m text = Some r"
  shows "get_residual_stream (Some tk) (Some m) text = r \<and>
    (\<exists>inputs outputs hs first_layer num_tokens vals row.
       tok_call tk text = Some inputs \<and> forward m inputs True = Some outputs \<and>
       hidden_states outputs = Some hs \<and> nth_opt hs 0 = Some first_layer \<and>
       shape1 first_layer = Some num_tokens \<and>
       getitem (input_ids inputs) 0 = Some row \<and>
       field r ''layer_values'' = Some (JList (map (\<lambda>vs. JList (map JFloat vs)) vals)) \<and>
       field r ''num_layers'' = Some (JInt (int (length hs))) \<and>
       length vals = num_tokens \<and>
       (len row = Some num_tokens \<longrightarrow>
          json_len (JList (map (\<lambda>vs. JList (map JFloat vs)) vals)) = len row) \<and>
       (\<forall>t<num_tokens. length (vals ! t) = length hs \<and>
          (\<forall>l<length hs. 0 \<le> vals ! t ! l \<and>
             (\<exists>layer batch0 vec. nth_opt hs l = Some layer \<and>
                getitem layer 0 = Some batch0 \<and> getitem batch0 (int t) = Some vec \<and>
                vals ! t ! l = sqrt (\<Sum>x\<leftarrow>flatten vec. x\<^sup>2)))))"
proof -
  from assms obtain inputs outputs hs first_layer num_tokens vals row tokens where
    h: "tok_call tk text = Some inputs" "forward m inputs True = Some outputs"
       "hidden_states outputs = Some hs" "nth_opt hs 0 = Some first_layer"
       "shape1 first_layer = Some num_tokens"
       "getitem (input_ids inputs) 0 = Some row"
    and v: "token_layer_values hs num_tokens (length hs) = Some vals"
    and r: "r = [(''layer_values'', JList (map (\<lambda>vs. JList (map JFloat vs)) vals)),
          (''tokens'', JList (map JStr tokens)),
          (''num_layers'', JInt (int (length hs)))]"
    by (rule residual_stream_try_SomeD)
  note tl = token_layer_values_SomeD [OF v]
  have f: "field r ''layer_values'' = Some (JList (map (\<lambda>vs. JList (map JFloat vs)) vals))"
    "field r ''num_layers'' = Some (JInt (int (length hs)))"
    by (simp_all add: r field_def)
  have each: "length (vals ! t) = length hs \<and>
          (\<forall>l<length hs. 0 \<le> vals ! t ! l \<and>
             (\<exists>layer batch0 vec. nth_opt hs l = Some layer \<and>
                getitem layer 0 = Some batch0 \<and> getitem batch0 (int t) = Some vec \<and>
                vals ! t ! l = sqrt (\<Sum>x\<leftarrow>flatten vec. x\<^sup>2)))" if "t < num_tokens" for t
  proof -
    note vp = values_per_layer_SomeD [OF tl(2) [OF that]]
    have "0 \<le> vals ! t ! l \<and>
             (\<exists>layer batch0 vec. nth_opt hs l = Some layer \<and>
                getitem layer 0 = Some batch0 \<and> getitem batch0 (int t) = Some vec \<and>
                vals ! t ! l = sqrt (\<Sum>x\<leftarrow>flatten vec. x\<^sup>2))" if "l < length hs" for l
      using vp(2) [OF that] torch_norm_nonneg by (auto simp: torch_norm_def)
    with vp(1) show ?thesis by simp
  qed
  have "get_residual_stream (Some tk) (Some m) text = r"
    by (simp add: get_residual_stream_def assms)
  moreover have "len row = Some num_tokens \<longrightarrow>
          json_len (JList (map (\<lambda>vs. JList (map JFloat vs)) vals)) = len row"
    using tl(1) by simp
  ultimately show ?thesis
    using h f tl(1) each by blast
qed

text \<open>
  C4, as the code has it. The \<open>tokens\<close> field of a successful /residual_stream response
  is the raw token sequence that \<open>convert_ids_to_tokens\<close> gives for the input ids, one
  string per input token, unchanged: the marker U+0120 is not rewritten.
\<close>

theorem residual_stream_tokens_raw:
  assumes "residual_stream_try tk m text = Some r"
  shows "get_residual_stream (Some tk) (Some m) text = r \<and>
    (\<exists>inputs row tokens.
       tok_call tk text = Some inputs \<and> getitem (input_ids inputs) 0 = Some row \<and>
       convert_ids_to_tokens tk row = Some tokens \<and>
       field r ''tokens'' = Some (JList (map JStr tokens)))"
proof -
  from assms obtain inputs row tokens vals and hs :: "real tensor list" where
    h: "tok_call tk text = Some inputs" "getitem (input_ids inputs) 0 = Some row"
       "convert_ids_to_tokens tk row = Some tokens"
    and r: "r = [(''layer_values'', JList (map (\<lambda>vs. JList (map JFloat vs)) vals)),
          (''tokens'', JList (map JStr tokens)),
          (''num_layers'', JInt (int (length hs)))]"
    by (rule residual_stream_try_SomeD)
  have "field r ''tokens'' = Some (JList (map JStr tokens))"
    by (simp add: r field_def)
  moreover have "get_residual_stream (Some tk) (Some m) text = r"
    by (simp add: get_residual_stream_def assms)
  ultimately show ?thesis using h by blast
qed

lemma sqrt_25: "sqrt 25 = 5"
  using real_sqrt_abs [of 5] by simp

lemma example_residual_stream_run:
  "residual_stream_try example_tokenizer example_model hello_world =
     Some example_residual_stream"
  by (simp add: residual_stream_try_def example_tokenizer_def example_model_def
      example_outputs_def example_encoding_def example_vocab_def nth_opt_def
      token_layer_values_def values_per_layer_def torch_norm_def sqrt_25 upt_rec_numeral
      example_residual_stream_def)

theorem residual_stream_norms_witness:
  "residual_stream_try example_tokenizer example_model hello_world =
     Some example_residual_stream \<and>
   get_residual_stream (Some example_tokenizer) (Some example_model) hello_world =
     example_residual_stream"
proof
  show run: "residual_stream_try example_tokenizer example_model hello_world =
     Some example_residual_stream"
    by (rule example_residual_stream_run)
  show "get_residual_stream (Some example_tokenizer) (Some example_model) hello_world =
     example_residual_stream"
    using residual_stream_norms [OF run] by (rule conjunct1)
qed

theorem residual_stream_tokens_raw_witness:
  "residual_stream_try example_tokenizer example_model hello_world =
     Some example_residual_stream \<and>
   (\<exists>tokens. convert_ids_to_tokens example_tokenizer (Tensor [Scalar 15496, Scalar 995]) =
       Some tokens \<and>
     field example_residual_stream ''tokens'' = Some (JList (map JStr tokens)))"
proof
  show run: "residual_stream_try example_tokenizer example_model hello_world =
     Some example_residual_stream"
    by (rule example_residual_stream_run)
  have row: "getitem (input_ids example_encoding) 0 = Some (Tensor [Scalar 15496, Scalar 995])"
    by (simp add: example_encoding_def)
  show "\<exists>tokens. convert_ids_to_tokens example_tokenizer (Tensor [Scalar 15496, Scalar 995]) =
       Some tokens \<and>
     field example_residual_stream ''tokens'' = Some (JList (map JStr tokens))"
    using residual_stream_tokens_raw [OF run] row
    by (auto simp: example_tokenizer_def)
qed

text \<open>
  C4, as it is stated, fails on "Hello world": the second token is returned with the
  marker U+0120 in front, not with a leading space.
\<close>

theorem residual_stream_tokens_not_cleaned:
  "field (get_residual_stream (Some example_tokenizer) (Some example_model) hello_world)
     ''tokens'' =
     Some (JList [JStr [72, 101, 108, 108, 111], JStr [288, 119, 111, 114, 108, 100]]) \<and>
   field (get_residual_stream (Some example_tokenizer) (Some example_model) hello_world)
     ''tokens'' \<noteq>
     Some (JList (map JStr (map display_token
       [[72, 101, 108, 108, 111], [288, 119, 111, 114, 108, 100]])))"
  by (simp add: get_residual_stream_def example_residual_stream_run
      example_residual_stream_def field_def)

section \<open>Properties of /attention\<close>

lemma attention_try_SomeD:
  assumes "attention_try tk m text = Some r"
  obtains inputs outputs where
    "tok_call tk text = Some inputs"
    "forward m inputs False = Some outputs"
    "r = [(''num_layers'', JInt (int (length (case attentions outputs of Some a \<Rightarrow> a | None \<Rightarrow> [])))),
          (''attentions'', JList (map (\<lambda>layer. tolist JFloat (squeeze0 layer))
              (case attentions outputs of Some a \<Rightarrow> a | None \<Rightarrow> [])))]"
  using assms unfolding attention_try_def
  by (auto simp: Let_def split: Option.bind_splits)

text \<open>
  C9. Every /attention response holds \<open>num_layers\<close> and \<open>attentions\<close> with
  \<open>num_layers = len(attentions)\<close>; when the tokenizer or the model is unavailable, or
  anything raises, the response is \<open>num_layers = 0\<close>, \<open>attentions = []\<close>.
\<close>

theorem attention_layer_count:
  "(\<exists>data. get_attention tokenizer model text =
       [(''num_layers'', JInt (int (length data))), (''attentions'', JList data)]) \<and>
   (tokenizer = None \<or> model = None \<or>
      (\<exists>tk m. tokenizer = Some tk \<and> model = Some m \<and> attention_try tk m text = None)
    \<longrightarrow> get_attention tokenizer model text =
          [(''num_layers'', JInt 0), (''attentions'', JList [])])"
proof -
  have fail: "\<exists>data. attention_failure =
       [(''num_layers'', JInt (int (length data))), (''attentions'', JList data)]"
    by (simp add: attention_failure_def)
  have ok: "\<exists>data. r = [(''num_layers'', JInt (int (length data))), (''attentions'', JList data)]"
    if "attention_try tk m text = Some r" for tk m r
    using that by (rule attention_try_SomeD) simp
  have 1: "\<exists>data. get_attention tokenizer model text =
       [(''num_layers'', JInt (int (length data))), (''attentions'', JList data)]"
    using fail ok
    by (auto simp: get_attention_def split: option.splits)
  have 2: "tokenizer = None \<or> model = None \<or>
      (\<exists>tk m. tokenizer = Some tk \<and> model = Some m \<and> attention_try tk m text = None)
    \<longrightarrow> get_attention tokenizer model text =
          [(''num_layers'', JInt 0), (''attentions'', JList [])]"
    by (auto simp: get_attention_def attention_failure_def split: option.splits)
  from 1 2 show ?thesis by (rule conjI)
qed

theorem attention_layer_count_witness:
  "attention_try failing_tokenizer example_model hello_world = None \<and>
   get_attention (Some failing_tokenizer) (Some example_model) hello_world =
     [(''num_layers'', JInt 0), (''attentions'', JList [])] \<and>
   get_attention (Some example_tokenizer) None hello_world =
     [(''num_layers'', JInt 0), (''attentions'', JList [])] \<and>
   get_attention (Some example_tokenizer) (Some example_model) hello_world =
     [(''num_layers'', JInt 1),
      (''attentions'', JList [JList [JList [JList [JFloat 1, JFloat 0],
                                            JList [JFloat (1 / 2), JFloat (1 / 2)]]]])]"
proof -
  have n: "attention_try failing_tokenizer example_model hello_world = None"
    by (simp add: attention_try_def failing_tokenizer_def)
  have ok: "get_attention (Some example_tokenizer) (Some example_model) hello_world =
     [(''num_layers'', JInt 1),
      (''attentions'', JList [JList [JList [JList [JFloat 1, JFloat 0],
                                            JList [JFloat (1 / 2), JFloat (1 / 2)]]]])]"
    by (simp add: get_attention_def attention_try_def example_tokenizer_def example_model_def
        example_outputs_def example_encoding_def)
  show ?thesis
    using n ok
      attention_layer_count [of "Some failing_tokenizer" "Some example_model" hello_world]
      attention_layer_count [of "Some example_tokenizer" None hello_world]
    by simp
qed

section \<open>Properties of /embeddings\<close>

lemma pca_try_nonempty:
  assumes "pca_try solve X = Some (JList e3)" "e3 \<noteq> []"
  shows "\<exists>n w. len X = Some n \<and> shape1 X = Some w \<and> 3 \<le> n \<and> 3 \<le> w"
  using assms unfolding pca_try_def pca_fit_transform_def
  by (auto split: Option.bind_splits if_splits)

lemma embeddings_try_SomeD:
  assumes "embeddings_try tk m solve text = Some r"
  obtains inputs outputs hs populated e where
    "tok_call tk text = Some inputs"
    "forward m inputs False = Some outputs"
    "hs = (case hidden_states outputs of Some h \<Rightarrow> h | None \<Rightarrow> [])"
    "(if hs \<noteq> [] then map_option (\<lambda>n. n > 0) (len (squeeze0 (last hs))) else Some False) =
       Some populated"
    "e = (if populated
          then (case pca_try solve (squeeze0 (last hs)) of Some e \<Rightarrow> e | None \<Rightarrow> JList [])
          else JList [])"
    "r = [(''num_layers'', JInt (int (length hs))),
          (''hidden_states'', JList (map (\<lambda>layer. tolist JFloat (squeeze0 layer)) hs)),
          (''embeddings3d'', if is_list e then e else JList [])]"
  using assms unfolding embeddings_try_def
  by (auto simp: Let_def last_map o_def split: Option.bind_splits if_splits intro!: that)

text \<open>
  C8. A successful /embeddings response returns every layer of hidden states the model
  gave (a non-empty list whenever the model gave any), and \<open>embeddings3d\<close> is a list that
  is non-empty only if the last layer has at least 3 tokens and a width of at least 3:
  with fewer than 3 tokens or a width below 3 it is \<open>[]\<close>.
\<close>

theorem embeddings_pca_guard:
  assumes "embeddings_try tk m solve text = Some r"
  shows "get_embeddings (Some tk) (Some m) solve text = r \<and>
    (\<exists>inputs outputs hs e3.
       tok_call tk text = Some inputs \<and> forward m inputs False = Some outputs \<and>
       hs = (case hidden_states outputs of Some h \<Rightarrow> h | None \<Rightarrow> []) \<and>
       field r ''num_layers'' = Some (JInt (int (length hs))) \<and>
       field r ''hidden_states'' =
         Some (JList (map (\<lambda>layer. tolist JFloat (squeeze0 layer)) hs)) \<and>
       field r ''embeddings3d'' = Some (JList e3) \<and>
       (hs \<noteq> [] \<longrightarrow> field r ''hidden_states'' \<noteq> Some (JList [])) \<and>
       (e3 \<noteq> [] \<longrightarrow> hs \<noteq> [] \<and>
          (\<exists>n w. len (squeeze0 (last hs)) = Some n \<and> shape1 (squeeze0 (last hs)) = Some w \<and>
             3 \<le> n \<and> 3 \<le> w)))"
proof -
  from assms obtain inputs outputs hs populated e where
    h: "tok_call tk text = Some inputs" "forward m inputs False = Some outputs"
       "hs = (case hidden_states outputs of Some h \<Rightarrow> h | None \<Rightarrow> [])"
    and pop: "(if hs \<noteq> [] then map_option (\<lambda>n. n > 0) (len (squeeze0 (last hs)))
               else Some False) = Some populated"
    and e: "e = (if populated
          then (case pca_try solve (squeeze0 (last hs)) of Some e \<Rightarrow> e | None \<Rightarrow> JList [])
          else JList [])"
    and r: "r = [(''num_layers'', JInt (int (length hs))),
          (''hidden_states'', JList (map (\<lambda>layer. tolist JFloat (squeeze0 layer)) hs)),
          (''embeddings3d'', if is_list e then e else JList [])]"
    by (rule embeddings_try_SomeD)
  obtain e3 where e3: "(if is_list e then e else JList []) = JList e3"
    by (cases e) auto
  have f: "field r ''num_layers'' = Some (JInt (int (length hs)))"
    "field r ''hidden_states'' = Some (JList (map (\<lambda>layer. tolist JFloat (squeeze0 layer)) hs))"
    "field r ''embeddings3d'' = Some (JList e3)"
    by (simp_all add: r field_def e3)
  have g: "hs \<noteq> [] \<and>
          (\<exists>n w. len (squeeze0 (last hs)) = Some n \<and> shape1 (squeeze0 (last hs)) = Some w \<and>
             3 \<le> n \<and> 3 \<le> w)" if ne: "e3 \<noteq> []"
  proof -
    have el: "e = JList e3"
      using e3 ne by (cases "is_list e") auto
    have p: "populated"
      using el e ne by (cases populated) auto
    then have hs: "hs \<noteq> []"
      using pop by (auto split: if_splits)
    have "pca_try solve (squeeze0 (last hs)) = Some (JList e3)"
      using el e p ne by (auto split: option.splits)
    from pca_try_nonempty [OF this ne] hs show ?thesis by simp
  qed
  have "get_embeddings (Some tk) (Some m) solve text = r"
    by (simp add: get_embeddings_def assms)
  moreover have "hs \<noteq> [] \<longrightarrow> field r ''hidden_states'' \<noteq> Some (JList [])"
    by (simp add: f)
  ultimately show ?thesis
    using h f g by blast
qed

lemma example_embeddings_run:
  "embeddings_try example_tokenizer example_model example_solver hello_world =
     Some example_embeddings"
  by (simp add: embeddings_try_def example_tokenizer_def example_model_def
      example_outputs_def example_encoding_def pca_try_def pca_fit_transform_def
      example_solver_def example_embeddings_def)

theorem embeddings_pca_guard_witness:
  "embeddings_try example_tokenizer example_model example_solver hello_world =
     Some example_embeddings \<and>
   get_embeddings (Some example_tokenizer) (Some example_model) example_solver hello_world =
     example_embeddings \<and>
   field (get_embeddings (Some example_tokenizer) (Some three_token_model) example_solver
       hello_world) ''embeddings3d'' =
     Some (JList [JList [JFloat 0, JFloat 0, JFloat 0], JList [JFloat 0, JFloat 0, JFloat 0],
                  JList [JFloat 0, JFloat 0, JFloat 0]])"
proof (intro conjI)
  show run: "embeddings_try example_tokenizer example_model example_solver hello_world =
     Some example_embeddings"
    by (rule example_embeddings_run)
  show "get_embeddings (Some example_tokenizer) (Some example_model) example_solver
      hello_world = example_embeddings"
    using embeddings_pca_guard [OF run] by (rule conjunct1)
  show "field (get_embeddings (Some example_tokenizer) (Some three_token_model) example_solver
       hello_world) ''embeddings3d'' =
     Some (JList [JList [JFloat 0, JFloat 0, JFloat 0], JList [JFloat 0, JFloat 0, JFloat 0],
                  JList [JFloat 0, JFloat 0, JFloat 0]])"
    by (simp add: get_embeddings_def embeddings_try_def example_tokenizer_def
        three_token_model_def example_encoding_def pca_try_def pca_fit_transform_def
        example_solver_def field_def numeral_3_eq_3)
qed

end
